theory Spec2Isabelle
  imports Main "HOL-Library.Word" "HOL-Library.Sublist"
begin

section \<open>JavaScript values as the program sees them\<close>

text \<open>
  A JavaScript string is a sequence of UTF-16 code units. \<open>String.prototype.split\<close>,
  \<open>String.prototype.trim\<close> and the regular expression dot all work on code units, and
  every code unit they single out lies in the Basic Multilingual Plane.
  \<open>js\<close> turns an ASCII literal of the source into such a string.
\<close>

type_synonym jschar = "16 word"
type_synonym jsstring = "jschar list"

definition js :: "string \<Rightarrow> jsstring" where
  "js s = map of_char s"

text \<open>
  The values \<open>JSON.parse\<close> (behind \<open>response.json()\<close>) can produce, and \<open>undefined\<close>.
  A number is kept as the text \<open>Number::toString\<close> gives it, which is all the program
  ever reads of one: \<open>0\<close> and \<open>-0\<close> print as \<open>0\<close>, \<open>NaN\<close> as \<open>NaN\<close>.
  An object is the list of its own properties.
\<close>

datatype jsval =
    JUndefined
  | JNull
  | JBool bool
  | JNum jsstring
  | JStr jsstring
  | JArr "jsval list"
  | JObj "(jsstring \<times> jsval) list"

text \<open>
  What a \<open>throw\<close> or a rejected promise carries: an object for which
  \<open>instanceof Error\<close> holds, with its class and its \<open>message\<close>; the \<open>ProgressEvent\<close>
  a \<open>FileReader\<close> hands to \<open>onerror\<close>; or any other value.
\<close>

datatype error_class = Error | TypeError | SyntaxError | DOMException

datatype thrown =
    ErrorObject error_class jsstring
  | ProgressEvent
  | OtherValue jsval

fun instanceof_TypeError :: "thrown \<Rightarrow> bool" where
  "instanceof_TypeError (ErrorObject c m) = (c = TypeError)"
| "instanceof_TypeError _ = False"

fun instanceof_Error :: "thrown \<Rightarrow> bool" where
  "instanceof_Error (ErrorObject c m) = True"
| "instanceof_Error _ = False"

section \<open>types.ts\<close>

text \<open>
  \<open>base64Data\<close> is declared a string, but \<open>fileToImageInfo\<close> fills it from the second
  element of an array that may have only one: \<open>None\<close> is \<open>undefined\<close>.
\<close>

record ImageInfo =
  base64Data :: "jsstring option"
  mimeType :: jsstring
  previewUrl :: jsstring

section \<open>The image codec: fileToImageInfo\<close>

text \<open>\<open>s.split(sep)\<close> for a separator of one code unit: every occurrence splits.\<close>

function split :: "jschar \<Rightarrow> jsstring \<Rightarrow> jsstring list" where
  "split sep s =
     (case dropWhile (\<lambda>c. c \<noteq> sep) s of
        [] \<Rightarrow> [takeWhile (\<lambda>c. c \<noteq> sep) s]
      | _ # rest \<Rightarrow> takeWhile (\<lambda>c. c \<noteq> sep) s # split sep rest)"
  by pat_completeness auto
termination
proof (relation "measure (\<lambda>(sep, s). length s)")
  show "wf (measure (\<lambda>(sep, s). length s))" by simp
next
  fix sep :: jschar and s x21 x22
  assume "dropWhile (\<lambda>c. c \<noteq> sep) s = x21 # x22"
  then have "length x22 < length (dropWhile (\<lambda>c. c \<noteq> sep) s)" by simp
  also have "\<dots> \<le> length s" by (rule length_dropWhile_le)
  finally show "((sep, x22), (sep, s)) \<in> measure (\<lambda>(sep, s). length s)" by simp
qed

declare split.simps [simp del]

text \<open>
  The line terminators of ECMAScript, which the dot of a regular expression without
  the \<open>s\<close> flag does not match: LF, CR, LS, PS.
\<close>

definition is_line_terminator :: "jschar \<Rightarrow> bool" where
  "is_line_terminator c = (c = 0x000A \<or> c = 0x000D \<or> c = 0x2028 \<or> c = 0x2029)"

text \<open>
  \<open>header.match(/:(.*?);/)\<close>. \<open>lazy_group\<close> runs \<open>(.*?);\<close> right after a colon: the lazy
  star stops at the first semicolon and fails on a line terminator or at the end.
  \<open>match_mime\<close> tries the colons from the left and returns capture group 1 of the
  first match, \<open>None\<close> for \<open>null\<close>.
\<close>

fun lazy_group :: "jsstring \<Rightarrow> jsstring option" where
  "lazy_group [] = None"
| "lazy_group (c # cs) =
     (if c = of_char CHR '';'' then Some []
      else if is_line_terminator c then None
      else map_option ((#) c) (lazy_group cs))"

fun match_mime :: "jsstring \<Rightarrow> jsstring option" where
  "match_mime [] = None"
| "match_mime (c # cs) =
     (if c = of_char CHR '':'' then
        (case lazy_group cs of Some g \<Rightarrow> Some g | None \<Rightarrow> match_mime cs)
      else match_mime cs)"

text \<open>
  What the \<open>FileReader\<close> reports: \<open>onload\<close> with a string result, \<open>onload\<close> with a
  result that is not a string, or \<open>onerror\<close>.
\<close>

datatype read_outcome = LoadString jsstring | LoadOther | ReadFailed

text \<open>
  The promise of \<open>fileToImageInfo\<close>: \<open>Inl\<close> what it rejects with, \<open>Inr\<close> the record it
  resolves to. \<open>const [header, base64Data] = dataUrl.split(',')\<close> takes the first two
  segments, the second being \<open>undefined\<close> when there is no comma.
\<close>

definition fileToImageInfo :: "read_outcome \<Rightarrow> thrown + ImageInfo" where
  "fileToImageInfo r =
     (case r of
        LoadString dataUrl \<Rightarrow>
          (let parts = split (of_char CHR '','') dataUrl;
               header = hd parts;
               base64Data = (case tl parts of [] \<Rightarrow> None | b # _ \<Rightarrow> Some b);
               mimeTypeMatch = match_mime header
           in case mimeTypeMatch of
                None \<Rightarrow> Inl (ErrorObject Error (js ''Could not determine image MIME type.''))
              | Some g \<Rightarrow>
                  if g = [] then Inl (ErrorObject Error (js ''Could not determine image MIME type.''))
                  else Inr \<lparr>base64Data = base64Data, mimeType = g, previewUrl = dataUrl\<rparr>)
      | LoadOther \<Rightarrow> Inl (ErrorObject Error (js ''Failed to read file as a data URL.''))
      | ReadFailed \<Rightarrow> Inl ProgressEvent)"

section \<open>The description client: services/ollamaService.ts\<close>

definition OLLAMA_API_URL :: jsstring where
  "OLLAMA_API_URL = js ''http://localhost:11434/api/generate''"

definition OLLAMA_MODEL :: jsstring where
  "OLLAMA_MODEL = js ''llava''"

definition prompt :: jsstring where
  "prompt = js ''Describe this image in detail. What objects are present? What is the setting? What actions are taking place? What is the overall mood or feeling of the image?''"

subsection \<open>The platform: fetch, Response, console\<close>

text \<open>
  A request as \<open>fetch\<close> receives it; \<open>http_method\<close> is its \<open>method\<close>. \<open>body\<close> is the value
  handed to \<open>JSON.stringify\<close>; the serialisation itself is the platform's.
\<close>

record http_request =
  url :: jsstring
  http_method :: jsstring
  headers :: "(jsstring \<times> jsstring) list"
  body :: jsval

text \<open>
  A response, as far as the program reads it: the status, and what the promise of
  \<open>response.json()\<close> settles to (\<open>Inl\<close> a rejection, \<open>Inr\<close> the parsed body).
  \<open>response.ok\<close> is defined by the Fetch standard as a status from 200 to 299.
\<close>

record response =
  status :: nat
  json :: "thrown + jsval"

definition ok :: "response \<Rightarrow> bool" where
  "ok r = (200 \<le> status r \<and> status r \<le> 299)"

text \<open>
  The observable effects: the requests handed to \<open>fetch\<close>, in order, and the
  argument lists of the calls of \<open>console.error\<close>, in order.
\<close>

datatype log_arg = LogText jsstring | LogThrown thrown

record world =
  requests :: "http_request list"
  console :: "log_arg list list"

type_synonym network = "http_request \<Rightarrow> thrown + response"

text \<open>The one way a request is sent: \<open>await fetch(...)\<close> records it and settles.\<close>

definition do_fetch :: "network \<Rightarrow> http_request \<Rightarrow> world \<Rightarrow> (thrown + response) \<times> world" where
  "do_fetch fetch req w = (fetch req, w\<lparr>requests := requests w @ [req]\<rparr>)"

definition console_error :: "log_arg list \<Rightarrow> world \<Rightarrow> world" where
  "console_error args w = w\<lparr>console := console w @ [args]\<rparr>"

subsection \<open>The language: property reads, conversions, trim\<close>

text \<open>
  \<open>v.k\<close> for a property name that no built-in prototype defines, as \<open>error\<close> and
  \<open>response\<close> are: reading from \<open>null\<close> or \<open>undefined\<close> throws a \<open>TypeError\<close> (the
  wording is V8's; the program never reads it), an object gives its own property or
  \<open>undefined\<close>, every other value gives \<open>undefined\<close>.
\<close>

fun get_property :: "jsval \<Rightarrow> jsstring \<Rightarrow> thrown + jsval" where
  "get_property JUndefined k =
     Inl (ErrorObject TypeError
       (js ''Cannot read properties of undefined (reading '' @ [0x27] @ k @ [0x27] @ js '')''))"
| "get_property JNull k =
     Inl (ErrorObject TypeError
       (js ''Cannot read properties of null (reading '' @ [0x27] @ k @ [0x27] @ js '')''))"
| "get_property (JObj ps) k = Inr (case map_of ps k of None \<Rightarrow> JUndefined | Some v \<Rightarrow> v)"
| "get_property v k = Inr JUndefined"

text \<open>
  \<open>ToString\<close>, which a template literal applies to each substitution. An array
  joins its elements with commas, \<open>null\<close> and \<open>undefined\<close> elements giving the empty
  string. A parsed object prints as \<open>[object Object]\<close>, unless it has an own property
  named \<open>toString\<close>: that value is not callable, \<open>valueOf\<close> gives back the object,
  and the conversion throws a \<open>TypeError\<close>.
\<close>

fun to_string :: "jsval \<Rightarrow> thrown + jsstring"
  and join :: "jsval list \<Rightarrow> thrown + jsstring" where
  "to_string JUndefined = Inr (js ''undefined'')"
| "to_string JNull = Inr (js ''null'')"
| "to_string (JBool b) = Inr (if b then js ''true'' else js ''false'')"
| "to_string (JNum t) = Inr t"
| "to_string (JStr s) = Inr s"
| "to_string (JArr xs) = join xs"
| "to_string (JObj ps) =
     (if map_of ps (js ''toString'') = None then Inr (js ''[object Object]'')
      else Inl (ErrorObject TypeError (js ''Cannot convert object to primitive value'')))"
| "join [] = Inr []"
| "join (x # xs) =
     (case (case x of JUndefined \<Rightarrow> Inr [] | JNull \<Rightarrow> Inr [] | _ \<Rightarrow> to_string x) of
        Inl e \<Rightarrow> Inl e
      | Inr s \<Rightarrow>
          (case xs of
             [] \<Rightarrow> Inr s
           | _ # _ \<Rightarrow> (case join xs of Inl e \<Rightarrow> Inl e | Inr t \<Rightarrow> Inr (s @ js '','' @ t))))"

text \<open>\<open>ToBoolean\<close>, which \<open>if (data.response)\<close> applies.\<close>

fun to_boolean :: "jsval \<Rightarrow> bool" where
  "to_boolean JUndefined = False"
| "to_boolean JNull = False"
| "to_boolean (JBool b) = b"
| "to_boolean (JNum t) = (t \<noteq> js ''0'' \<and> t \<noteq> js ''NaN'')"
| "to_boolean (JStr s) = (s \<noteq> [])"
| "to_boolean (JArr xs) = True"
| "to_boolean (JObj ps) = True"

text \<open>
  The white space \<open>String.prototype.trim\<close> strips: the WhiteSpace production
  (TAB, VT, FF, SP, NBSP, ZWNBSP and the Unicode space separators) and the line
  terminators.
\<close>

definition is_white_space :: "jschar \<Rightarrow> bool" where
  "is_white_space c =
     (c = 0x0009 \<or> c = 0x000B \<or> c = 0x000C \<or> c = 0x0020 \<or> c = 0x00A0 \<or> c = 0xFEFF
      \<or> c = 0x1680 \<or> (0x2000 \<le> c \<and> c \<le> 0x200A) \<or> c = 0x202F \<or> c = 0x205F \<or> c = 0x3000
      \<or> is_line_terminator c)"

definition trim :: "jsstring \<Rightarrow> jsstring" where
  "trim s = rev (dropWhile is_white_space (rev (dropWhile is_white_space s)))"

text \<open>
  \<open>v.trim()\<close>: only a string has the method; on any other value that passed the
  truthiness test the call throws a \<open>TypeError\<close>.
\<close>

fun call_trim :: "jsval \<Rightarrow> thrown + jsstring" where
  "call_trim (JStr s) = Inr (trim s)"
| "call_trim v = Inl (ErrorObject TypeError (js ''data.response.trim is not a function''))"

text \<open>\<open>Number::toString\<close> for the status, a non-negative integer: its decimal digits.\<close>

function number_to_string :: "nat \<Rightarrow> jsstring" where
  "number_to_string n =
     (if n < 10 then [of_nat (48 + n)]
      else number_to_string (n div 10) @ [of_nat (48 + n mod 10)])"
  by pat_completeness auto
termination
  by (relation "measure id") auto

declare number_to_string.simps [simp del]

fun message :: "thrown \<Rightarrow> jsstring" where
  "message (ErrorObject c m) = m"
| "message _ = []"

subsection \<open>generateDescriptionFromImage\<close>

definition request_of :: "ImageInfo \<Rightarrow> http_request" where
  "request_of imageInfo =
     \<lparr>url = OLLAMA_API_URL,
      http_method = js ''POST'',
      headers = [(js ''Content-Type'', js ''application/json'')],
      body = JObj
        [(js ''model'', JStr OLLAMA_MODEL),
         (js ''prompt'', JStr prompt),
         (js ''images'', JArr [case base64Data imageInfo of None \<Rightarrow> JUndefined | Some b \<Rightarrow> JStr b]),
         (js ''stream'', JBool False)]\<rparr>"

definition server_error_message :: "nat \<Rightarrow> jsstring \<Rightarrow> jsstring" where
  "server_error_message st msg =
     js ''Ollama API request failed with status '' @ number_to_string st
     @ js ''. Message: '' @ msg
     @ js ''. Make sure Ollama is running and the '' @ [0x27] @ OLLAMA_MODEL @ [0x27]
     @ js '' model is installed.''"

definition empty_description_message :: jsstring where
  "empty_description_message = js ''The Ollama API returned an empty description.''"

definition connect_message :: jsstring where
  "connect_message =
     js ''Could not connect to the Ollama server. \<newline>1. Is it running? \<newline>2. Are you getting a CORS error? If so, you must restart the Ollama server with permissions for web apps. Try running this command in your terminal: \<newline> OLLAMA_ORIGINS='*' ollama serve''"

definition unexpected_message :: jsstring where
  "unexpected_message = js ''An unexpected error occurred while communicating with the Ollama API.''"

text \<open>
  The \<open>try\<close> block: \<open>Inl\<close> what it throws, \<open>Inr\<close> what it returns. The substitutions
  of the template literal are evaluated before \<open>new Error\<close>, so a throw inside them
  replaces the error under construction.
\<close>

definition try_block :: "network \<Rightarrow> ImageInfo \<Rightarrow> world \<Rightarrow> (thrown + jsstring) \<times> world" where
  "try_block fetch imageInfo w =
     (case do_fetch fetch (request_of imageInfo) w of
        (Inl e, w') \<Rightarrow> (Inl e, w')
      | (Inr response, w') \<Rightarrow>
          if \<not> ok response then
            (let errorBody =
                   (case json response of
                      Inl _ \<Rightarrow> JObj [(js ''error'', JStr (js ''Could not parse error response.''))]
                    | Inr v \<Rightarrow> v)
             in case get_property errorBody (js ''error'') of
                  Inl e \<Rightarrow> (Inl e, w')
                | Inr err \<Rightarrow>
                    (case to_string err of
                       Inl e \<Rightarrow> (Inl e, w')
                     | Inr msg \<Rightarrow>
                         (Inl (ErrorObject Error (server_error_message (status response) msg)), w')))
          else
            (case json response of
               Inl e \<Rightarrow> (Inl e, w')
             | Inr data \<Rightarrow>
                 (case get_property data (js ''response'') of
                    Inl e \<Rightarrow> (Inl e, w')
                  | Inr r \<Rightarrow>
                      if to_boolean r then (call_trim r, w')
                      else (Inl (ErrorObject Error empty_description_message), w'))))"

text \<open>The \<open>catch\<close> block: logs what was caught, then throws the error it chooses.\<close>

definition catch_block :: "thrown \<Rightarrow> world \<Rightarrow> thrown \<times> world" where
  "catch_block error w =
     (let w' = console_error [LogText (js ''Error calling Ollama API:''), LogThrown error] w
      in if instanceof_TypeError error then (ErrorObject Error connect_message, w')
         else if instanceof_Error error then (ErrorObject Error (message error), w')
         else (ErrorObject Error unexpected_message, w'))"

definition generateDescriptionFromImage ::
    "network \<Rightarrow> ImageInfo \<Rightarrow> world \<Rightarrow> (thrown + jsstring) \<times> world" where
  "generateDescriptionFromImage fetch imageInfo w =
     (case try_block fetch imageInfo w of
        (Inr text, w') \<Rightarrow> (Inr text, w')
      | (Inl error, w') \<Rightarrow> (case catch_block error w' of (e, w'') \<Rightarrow> (Inl e, w'')))"

section \<open>The application: handleGenerateDescription\<close>

record app_state =
  imageInfo :: "ImageInfo option"
  description :: jsstring
  isLoading :: bool
  error :: "jsstring option"

definition handleGenerateDescription ::
    "network \<Rightarrow> app_state \<Rightarrow> world \<Rightarrow> app_state \<times> world" where
  "handleGenerateDescription fetch app w =
     (case imageInfo app of
        None \<Rightarrow> (app\<lparr>error := Some (js ''Please upload an image first.'')\<rparr>, w)
      | Some info \<Rightarrow>
          (let app1 = app\<lparr>isLoading := True, error := None, description := []\<rparr>
           in case generateDescriptionFromImage fetch info w of
                (Inr generatedText, w') \<Rightarrow>
                  (app1\<lparr>description := generatedText, isLoading := False\<rparr>, w')
              | (Inl e, w') \<Rightarrow>
                  (let errorMessage =
                         (if instanceof_Error e then message e else js ''An unknown error occurred.'')
                   in (app1\<lparr>error := Some (js ''Failed to generate description. '' @ errorMessage),
                             isLoading := False\<rparr>,
                       console_error [LogThrown e] w'))))"

section \<open>Concrete inputs\<close>

definition png_image :: ImageInfo where
  "png_image =
     \<lparr>base64Data = Some (js ''iVBORw0KGgo=''), mimeType = js ''image/png'',
      previewUrl = js ''data:image/png;base64,iVBORw0KGgo=''\<rparr>"

definition quiet_world :: world where
  "quiet_world = \<lparr>requests = [], console = []\<rparr>"

definition idle_app :: app_state where
  "idle_app = \<lparr>imageInfo = None, description = [], isLoading = False, error = None\<rparr>"

text \<open>A server that answers 200 with \<open>{"response":"  A cat on a mat.  "}\<close>.\<close>

definition cat_network :: network where
  "cat_network req =
     Inr \<lparr>status = 200, json = Inr (JObj [(js ''response'', JStr (js ''  A cat on a mat.  ''))])\<rparr>"

text \<open>A server that answers 200 with \<open>{"response":""}\<close>.\<close>

definition empty_response_network :: network where
  "empty_response_network req =
     Inr \<lparr>status = 200, json = Inr (JObj [(js ''response'', JStr [])])\<rparr>"

text \<open>A server that answers 200 with a body that is not JSON.\<close>

definition bad_json_network :: network where
  "bad_json_network req =
     Inr \<lparr>status = 200, json = Inl (ErrorObject SyntaxError (js ''Unexpected end of JSON input''))\<rparr>"

text \<open>A server that answers 500 with \<open>{"error":"model not found"}\<close>.\<close>

definition model_not_found_network :: network where
  "model_not_found_network req =
     Inr \<lparr>status = 500, json = Inr (JObj [(js ''error'', JStr (js ''model not found''))])\<rparr>"

text \<open>A server that answers 500 with \<open>{}\<close>, and one that answers 500 with \<open>null\<close>.\<close>

definition empty_object_network :: network where
  "empty_object_network req = Inr \<lparr>status = 500, json = Inr (JObj [])\<rparr>"

definition null_body_network :: network where
  "null_body_network req = Inr \<lparr>status = 500, json = Inr JNull\<rparr>"

text \<open>A server that answers 200 with \<open>null\<close>.\<close>

definition null_success_network :: network where
  "null_success_network req = Inr \<lparr>status = 200, json = Inr JNull\<rparr>"

text \<open>No server: \<open>fetch\<close> rejects with a \<open>TypeError\<close>, as the Fetch standard prescribes.\<close>

definition refusing_network :: network where
  "refusing_network req = Inl (ErrorObject TypeError (js ''Failed to fetch''))"

text \<open>A \<open>fetch\<close> that rejects with a value that is not an \<open>Error\<close>.\<close>

definition string_throwing_network :: network where
  "string_throwing_network req = Inl (OtherValue (JStr (js ''boom'')))"

section \<open>Properties of the image codec\<close>

subsection \<open>split and the regular expression\<close>

lemma split_no_separator:
  assumes "sep \<notin> set s"
  shows "split sep s = [s]"
proof -
  from assms have d: "dropWhile (\<lambda>c. c \<noteq> sep) s = []" by auto
  from assms have t: "takeWhile (\<lambda>c. c \<noteq> sep) s = s" by auto
  show ?thesis unfolding split.simps [of sep s] d t by simp
qed

lemma split_at_first:
  assumes "sep \<notin> set a"
  shows "split sep (a @ sep # b) = a # split sep b"
proof -
  from assms have a: "\<forall>c\<in>set a. c \<noteq> sep" by blast
  then have d: "dropWhile (\<lambda>c. c \<noteq> sep) (a @ sep # b) = sep # b"
    by (simp add: dropWhile_append3)
  from a have t: "takeWhile (\<lambda>c. c \<noteq> sep) (a @ sep # b) = a"
    by (simp add: takeWhile_tail)
  show ?thesis unfolding split.simps [of sep "a @ sep # b"] d t by simp
qed

text \<open>
  \<open>split\<close> always returns at least one segment, so the first element that the
  destructuring reads exists; it is the text before the first separator.
\<close>

lemma split_not_Nil: "split sep s \<noteq> []"
  by (subst split.simps) (simp split: list.splits)

lemma hd_split: "hd (split sep s) = takeWhile (\<lambda>c. c \<noteq> sep) s"
  by (subst split.simps) (simp split: list.splits)

lemma lazy_group_envelope:
  assumes "of_char CHR '';'' \<notin> set g" and "\<forall>c\<in>set g. \<not> is_line_terminator c"
  shows "lazy_group (g @ of_char CHR '';'' # rest) = Some g"
  using assms by (induction g) auto

lemma lazy_group_sound:
  "lazy_group cs = Some g \<Longrightarrow>
     \<exists>b. cs = g @ of_char CHR '';'' # b \<and> (\<forall>c\<in>set g. \<not> is_line_terminator c)"
proof (induction cs arbitrary: g)
  case Nil
  then show ?case by simp
next
  case (Cons c cs)
  show ?case
  proof (cases "c = of_char CHR '';''")
    case True
    with Cons.prems show ?thesis by simp
  next
    case False
    with Cons.prems obtain g' where
      g': "lazy_group cs = Some g'" "g = c # g'" "\<not> is_line_terminator c"
      by (auto split: if_splits)
    from Cons.IH [OF g'(1)] g'(2,3) show ?thesis by auto
  qed
qed

text \<open>A match of the regular expression is a colon, the group, a semicolon.\<close>

lemma match_mime_sound:
  "match_mime h = Some g \<Longrightarrow>
     \<exists>a b. h = a @ of_char CHR '':'' # g @ of_char CHR '';'' # b
          \<and> (\<forall>c\<in>set g. \<not> is_line_terminator c)"
proof (induction h)
  case Nil
  then show ?case by simp
next
  case (Cons c cs)
  show ?case
  proof (cases "c = of_char CHR '':'' \<and> lazy_group cs \<noteq> None")
    case True
    with Cons.prems have "lazy_group cs = Some g" by auto
    from lazy_group_sound [OF this] True show ?thesis by (metis append_Nil)
  next
    case False
    with Cons.prems have "match_mime cs = Some g"
      by (auto split: if_splits option.splits)
    from Cons.IH [OF this] obtain a b where
      cs: "cs = a @ of_char CHR '':'' # g @ of_char CHR '';'' # b"
      and g: "\<forall>c\<in>set g. \<not> is_line_terminator c"
      by blast
    from cs have "c # cs = (c # a) @ of_char CHR '':'' # g @ of_char CHR '';'' # b" by simp
    with g show ?thesis by blast
  qed
qed

lemma match_mime_data_header:
  assumes "of_char CHR '';'' \<notin> set mime" and "\<forall>c\<in>set mime. \<not> is_line_terminator c"
  shows "match_mime (js ''data:'' @ mime @ js '';base64'') = Some mime"
proof -
  have "js ''data:'' @ mime @ js '';base64'' =
        js ''data'' @ of_char CHR '':'' # (mime @ of_char CHR '';'' # js ''base64'')"
    by (simp add: js_def)
  moreover have "lazy_group (mime @ of_char CHR '';'' # js ''base64'') = Some mime"
    using assms by (rule lazy_group_envelope)
  ultimately show ?thesis by (simp add: js_def)
qed

subsection \<open>Decoding a data URL\<close>

text \<open>
  C1. For every data URL \<open>data:<mime>;base64,<data>\<close> whose MIME type is not empty and
  has no semicolon, comma or line terminator, and whose data has no comma,
  \<open>fileToImageInfo\<close> resolves, to the record whose \<open>mimeType\<close> is that MIME type, whose
  \<open>base64Data\<close> is the text after the comma, and whose \<open>previewUrl\<close> is the URL itself.
\<close>

theorem decode_data_url:
  assumes "mime \<noteq> []"
    and "of_char CHR '';'' \<notin> set mime"
    and "of_char CHR '','' \<notin> set mime"
    and "\<forall>c\<in>set mime. \<not> is_line_terminator c"
    and "of_char CHR '','' \<notin> set b64"
  shows "fileToImageInfo (LoadString (js ''data:'' @ mime @ js '';base64,'' @ b64)) =
           Inr \<lparr>base64Data = Some b64, mimeType = mime,
                previewUrl = js ''data:'' @ mime @ js '';base64,'' @ b64\<rparr>"
proof -
  let ?header = "js ''data:'' @ mime @ js '';base64''"
  have url: "js ''data:'' @ mime @ js '';base64,'' @ b64 = ?header @ of_char CHR '','' # b64"
    by (simp add: js_def)
  have "of_char CHR '','' \<notin> set ?header"
    using assms(3) by (simp add: js_def)
  then have "split (of_char CHR '','') (?header @ of_char CHR '','' # b64)
               = ?header # split (of_char CHR '','') b64"
    by (rule split_at_first)
  also have "split (of_char CHR '','') b64 = [b64]"
    using assms(5) by (rule split_no_separator)
  finally have "split (of_char CHR '','') (?header @ of_char CHR '','' # b64) = [?header, b64]" .
  moreover have "match_mime ?header = Some mime"
    using assms(2,4) by (rule match_mime_data_header)
  ultimately show ?thesis
    using assms(1) unfolding url by (simp add: fileToImageInfo_def)
qed

text \<open>The theorem at \<open>data:image/png;base64,iVBORw0KGgo=\<close>.\<close>

theorem decode_data_url_witness:
  "fileToImageInfo (LoadString (js ''data:image/png;base64,iVBORw0KGgo='')) =
     Inr \<lparr>base64Data = Some (js ''iVBORw0KGgo=''), mimeType = js ''image/png'',
          previewUrl = js ''data:image/png;base64,iVBORw0KGgo=''\<rparr>"
  using decode_data_url [of "js ''image/png''" "js ''iVBORw0KGgo=''"]
  by (simp add: js_def is_line_terminator_def)

text \<open>
  C6. When the header segment of a data URL (the text before its first comma) has no
  colon followed by a non-empty run without line terminators and then a semicolon,
  \<open>fileToImageInfo\<close> rejects with the error \<open>Could not determine image MIME type.\<close>
  and resolves to no record.
\<close>

theorem no_envelope_rejected:
  assumes "\<not> (\<exists>a g b. takeWhile (\<lambda>c. c \<noteq> of_char CHR '','') dataUrl
                         = a @ of_char CHR '':'' # g @ of_char CHR '';'' # b
                     \<and> g \<noteq> [] \<and> (\<forall>c\<in>set g. \<not> is_line_terminator c))"
  shows "fileToImageInfo (LoadString dataUrl) =
           Inl (ErrorObject Error (js ''Could not determine image MIME type.''))
       \<and> (\<nexists>info. fileToImageInfo (LoadString dataUrl) = Inr info)"
proof -
  let ?header = "takeWhile (\<lambda>c. c \<noteq> of_char CHR '','') dataUrl"
  have "g = []" if "match_mime ?header = Some g" for g
    using match_mime_sound [OF that] assms by blast
  then have "fileToImageInfo (LoadString dataUrl) =
           Inl (ErrorObject Error (js ''Could not determine image MIME type.''))"
    by (auto simp add: fileToImageInfo_def hd_split Let_def split: option.splits)
  then show ?thesis by simp
qed

text \<open>The theorem at \<open>image/png;base64,iVBORw0KGgo=\<close>, whose header has no colon.\<close>

theorem no_envelope_rejected_witness:
  "fileToImageInfo (LoadString (js ''image/png;base64,iVBORw0KGgo='')) =
     Inl (ErrorObject Error (js ''Could not determine image MIME type.''))
   \<and> (\<nexists>info. fileToImageInfo (LoadString (js ''image/png;base64,iVBORw0KGgo='')) = Inr info)"
proof (rule no_envelope_rejected)
  have "of_char CHR '':'' \<notin>
          set (takeWhile (\<lambda>c. c \<noteq> of_char CHR '','') (js ''image/png;base64,iVBORw0KGgo=''))"
    by (simp add: js_def)
  then show "\<not> (\<exists>a g b. takeWhile (\<lambda>c. c \<noteq> of_char CHR '','') (js ''image/png;base64,iVBORw0KGgo='')
                         = a @ of_char CHR '':'' # g @ of_char CHR '';'' # b
                     \<and> g \<noteq> [] \<and> (\<forall>c\<in>set g. \<not> is_line_terminator c))"
    by (metis in_set_conv_decomp)
qed

section \<open>Properties of the description client\<close>

lemmas generate_defs =
  generateDescriptionFromImage_def try_block_def do_fetch_def catch_block_def
  console_error_def Let_def

subsection \<open>The request\<close>

lemma generate_requests:
  "requests (snd (generateDescriptionFromImage fetch info w)) = requests w @ [request_of info]"
  by (simp add: generate_defs split: sum.splits)

text \<open>
  C2. Whatever the network does, a call of \<open>generateDescriptionFromImage\<close> adds exactly
  one request to those sent: a POST to \<open>http://localhost:11434/api/generate\<close> whose JSON
  body has the model \<open>llava\<close>, the fixed prompt, \<open>images\<close> the array of the one element
  \<open>imageInfo.base64Data\<close>, and \<open>stream\<close> false.
\<close>

theorem one_post_request:
  "requests (snd (generateDescriptionFromImage fetch info w)) =
     requests w @
     [\<lparr>url = js ''http://localhost:11434/api/generate'',
       http_method = js ''POST'',
       headers = [(js ''Content-Type'', js ''application/json'')],
       body = JObj
         [(js ''model'', JStr (js ''llava'')),
          (js ''prompt'', JStr (js ''Describe this image in detail. What objects are present? What is the setting? What actions are taking place? What is the overall mood or feeling of the image?'')),
          (js ''images'', JArr [case base64Data info of None \<Rightarrow> JUndefined | Some b \<Rightarrow> JStr b]),
          (js ''stream'', JBool False)]\<rparr>]"
  by (simp only: generate_requests request_of_def OLLAMA_API_URL_def OLLAMA_MODEL_def prompt_def)

text \<open>The theorem for the PNG record, a server that answers, and no earlier request.\<close>

theorem one_post_request_witness:
  "requests (snd (generateDescriptionFromImage cat_network png_image quiet_world)) =
     [\<lparr>url = js ''http://localhost:11434/api/generate'',
       http_method = js ''POST'',
       headers = [(js ''Content-Type'', js ''application/json'')],
       body = JObj
         [(js ''model'', JStr (js ''llava'')),
          (js ''prompt'', JStr (js ''Describe this image in detail. What objects are present? What is the setting? What actions are taking place? What is the overall mood or feeling of the image?'')),
          (js ''images'', JArr [JStr (js ''iVBORw0KGgo='')]),
          (js ''stream'', JBool False)]\<rparr>]"
  using one_post_request [of cat_network png_image quiet_world]
  by (simp add: png_image_def quiet_world_def)

subsection \<open>Responses with a non-success status\<close>

lemma server_error_message_parts:
  shows "sublist (number_to_string st) (server_error_message st msg)"
    and "sublist msg (server_error_message st msg)"
proof -
  show "sublist (number_to_string st) (server_error_message st msg)"
    unfolding server_error_message_def by (rule sublist_appendI)
  have "server_error_message st msg =
          (js ''Ollama API request failed with status '' @ number_to_string st @ js ''. Message: '')
          @ msg @ (js ''. Make sure Ollama is running and the '' @ [0x27] @ OLLAMA_MODEL @ [0x27]
                   @ js '' model is installed.'')"
    by (simp add: server_error_message_def)
  then show "sublist msg (server_error_message st msg)"
    by (metis sublist_appendI)
qed

text \<open>
  A body that is an object with a string \<open>error\<close> gives the message with the status and
  that string; a body that does not parse gives it with the placeholder.
\<close>

lemma server_error_with_message:
  assumes "fetch (request_of info) = Inr r" and "\<not> ok r" and "json r = Inr (JObj ps)"
    and "map_of ps (js ''error'') = Some (JStr m)"
  shows "fst (generateDescriptionFromImage fetch info w) =
           Inl (ErrorObject Error (server_error_message (status r) m))"
  using assms by (simp add: generate_defs)

lemma server_error_unparseable:
  assumes "fetch (request_of info) = Inr r" and "\<not> ok r" and "json r = Inl e"
  shows "fst (generateDescriptionFromImage fetch info w) =
           Inl (ErrorObject Error
             (server_error_message (status r) (js ''Could not parse error response.'')))"
  using assms by (simp add: generate_defs js_def)

lemma model_not_found_example:
  "fst (generateDescriptionFromImage model_not_found_network png_image quiet_world) =
     Inl (ErrorObject Error (js ''Ollama API request failed with status 500. Message: model not found. Make sure Ollama is running and the 'llava' model is installed.''))"
  by (simp add: generate_defs model_not_found_network_def ok_def server_error_message_def
      OLLAMA_MODEL_def js_def number_to_string.simps)

text \<open>
  C3. The claim holds in the two cases above, but not for every response with a
  non-success status. A 500 whose body is the JSON text \<open>null\<close> parses, so the
  placeholder is not used; reading \<open>errorBody.error\<close> then throws a \<open>TypeError\<close> inside
  the \<open>try\<close> block, and the \<open>catch\<close> block reports it as a failure to connect: the
  message has no status code in it.
\<close>

theorem null_body_reported_as_connection_failure:
  "fst (generateDescriptionFromImage null_body_network png_image quiet_world) =
     Inl (ErrorObject Error connect_message)
   \<and> \<not> sublist (js ''500'') connect_message"
proof
  show "fst (generateDescriptionFromImage null_body_network png_image quiet_world) =
     Inl (ErrorObject Error connect_message)"
    by (simp add: generate_defs null_body_network_def ok_def)
  show "\<not> sublist (js ''500'') connect_message"
    unfolding connect_message_def js_def by code_simp
qed

text \<open>
  When the status is not a success and reading \<open>error\<close> from the parsed body gives
  \<open>undefined\<close> (an object without that property, or an array, a string, a number or
  a boolean, none of which has it), the error thrown has the server-error message with
  \<open>undefined\<close> in the place of the server's message.
\<close>

lemma server_error_undefined:
  assumes "fetch (request_of info) = Inr r" and "\<not> ok r" and "json r = Inr v"
    and "get_property v (js ''error'') = Inr JUndefined"
  shows "fst (generateDescriptionFromImage fetch info w) =
           Inl (ErrorObject Error
             (js ''Ollama API request failed with status '' @ number_to_string (status r)
              @ js ''. Message: undefined. Make sure Ollama is running and the 'llava' model is installed.''))"
  using assms by (simp add: generate_defs server_error_message_def OLLAMA_MODEL_def js_def)

lemma empty_object_example:
  "fst (generateDescriptionFromImage empty_object_network png_image quiet_world) =
     Inl (ErrorObject Error (js ''Ollama API request failed with status 500. Message: undefined. Make sure Ollama is running and the 'llava' model is installed.''))"
  using server_error_undefined [of empty_object_network png_image
      "\<lparr>status = 500, json = Inr (JObj [])\<rparr>" "JObj []" quiet_world]
  by (simp add: empty_object_network_def ok_def js_def number_to_string.simps)

text \<open>
  C10. The body \<open>null\<close> also parses as JSON and has no \<open>error\<close> field, but nothing is
  interpolated for it: reading \<open>errorBody.error\<close> throws a \<open>TypeError\<close> inside the \<open>try\<close>
  block, and the \<open>catch\<close> block answers with the connection message, in which the
  text \<open>undefined\<close> does not occur.
\<close>

theorem null_body_message_lacks_undefined:
  "fst (generateDescriptionFromImage null_body_network png_image quiet_world) =
     Inl (ErrorObject Error connect_message)
   \<and> \<not> sublist (js ''undefined'') connect_message"
proof
  show "fst (generateDescriptionFromImage null_body_network png_image quiet_world) =
     Inl (ErrorObject Error connect_message)"
    by (simp add: generate_defs null_body_network_def ok_def)
  show "\<not> sublist (js ''undefined'') connect_message"
    unfolding connect_message_def js_def by code_simp
qed

subsection \<open>Failures of the transport\<close>

lemma connect_message_command:
  "sublist (js ''OLLAMA_ORIGINS='*' ollama serve'') connect_message"
  unfolding connect_message_def js_def by code_simp

lemma connect_message_causes:
  shows "sublist (js ''Is it running?'') connect_message"
    and "sublist (js ''Are you getting a CORS error?'') connect_message"
  unfolding connect_message_def js_def by code_simp+

text \<open>
  When \<open>fetch\<close> rejects with a \<open>TypeError\<close>, which is how the platform reports a
  refused connection or a cross-origin rejection, the error thrown carries the
  connection message, which names both causes and ends with the command
  \<open>OLLAMA_ORIGINS='*' ollama serve\<close>.
\<close>

lemma transport_failure:
  assumes "fetch (request_of info) = Inl (ErrorObject TypeError m)"
  shows "fst (generateDescriptionFromImage fetch info w) = Inl (ErrorObject Error connect_message)
       \<and> sublist (js ''Is it running?'') connect_message
       \<and> sublist (js ''Are you getting a CORS error?'') connect_message
       \<and> sublist (js ''OLLAMA_ORIGINS='*' ollama serve'') connect_message"
  using assms connect_message_command connect_message_causes
  by (simp add: generate_defs)

lemma refused_connection_example:
  "fst (generateDescriptionFromImage refusing_network png_image quiet_world) =
     Inl (ErrorObject Error connect_message)"
  using transport_failure [of refusing_network png_image "js ''Failed to fetch''" quiet_world]
  by (simp add: refusing_network_def)

text \<open>
  C4. The connection error is not kept apart from the failures of the application.
  A server that is reached and answers 500 with the body \<open>null\<close> makes the call throw
  the very error that a refused connection does: the \<open>TypeError\<close> of the property
  read is caught by the same \<open>instanceof TypeError\<close> test.
\<close>

theorem null_body_same_error_as_refused_connection:
  "fst (generateDescriptionFromImage null_body_network png_image quiet_world) =
     fst (generateDescriptionFromImage refusing_network png_image quiet_world)
   \<and> fst (generateDescriptionFromImage refusing_network png_image quiet_world) =
     Inl (ErrorObject Error connect_message)"
  by (simp add: generate_defs null_body_network_def refusing_network_def ok_def)

subsection \<open>Responses with a success status\<close>

text \<open>
  When the status is a success (200 to 299) and reading \<open>response\<close> from the parsed
  body gives \<open>undefined\<close> or the empty string, the error thrown carries
  \<open>The Ollama API returned an empty description.\<close>
\<close>

lemma empty_description:
  assumes "fetch (request_of info) = Inr r" and "ok r" and "json r = Inr v"
    and "get_property v (js ''response'') = Inr JUndefined
       \<or> get_property v (js ''response'') = Inr (JStr [])"
  shows "fst (generateDescriptionFromImage fetch info w) =
           Inl (ErrorObject Error (js ''The Ollama API returned an empty description.''))"
  using assms by (auto simp add: generate_defs empty_description_message_def)

lemma empty_response_example:
  "fst (generateDescriptionFromImage empty_response_network png_image quiet_world) =
     Inl (ErrorObject Error (js ''The Ollama API returned an empty description.''))"
  using empty_description [of empty_response_network png_image
      "\<lparr>status = 200, json = Inr (JObj [(js ''response'', JStr [])])\<rparr>"
      "JObj [(js ''response'', JStr [])]" quiet_world]
  by (simp add: empty_response_network_def ok_def)

text \<open>
  C7. A 200 whose body is \<open>null\<close> has no description field either, but the call does
  not throw the empty-description error for it: reading \<open>data.response\<close> throws a
  \<open>TypeError\<close> inside the \<open>try\<close> block, before the test of the field, and the \<open>catch\<close>
  block answers with the connection message.
\<close>

theorem null_success_body_reported_as_connection_failure:
  "fst (generateDescriptionFromImage null_success_network png_image quiet_world) =
     Inl (ErrorObject Error connect_message)
   \<and> connect_message \<noteq> empty_description_message"
  by (simp add: generate_defs null_success_network_def ok_def connect_message_def
      empty_description_message_def js_def)

lemma rev_dropWhile_rev:
  "xs = rev (dropWhile P (rev xs)) @ rev (takeWhile P (rev xs))"
proof -
  have "rev (dropWhile P (rev xs)) @ rev (takeWhile P (rev xs))
          = rev (takeWhile P (rev xs) @ dropWhile P (rev xs))"
    by (simp only: rev_append)
  also have "\<dots> = rev (rev xs)" by (simp only: takeWhile_dropWhile_id)
  finally show ?thesis by simp
qed

text \<open>\<open>trim\<close> removes white space at both ends and nothing else.\<close>

lemma trim_decomposition:
  "\<exists>l t. s = l @ trim s @ t \<and> (\<forall>c\<in>set l. is_white_space c) \<and> (\<forall>c\<in>set t. is_white_space c)"
proof -
  let ?l = "takeWhile is_white_space s"
  let ?b = "dropWhile is_white_space s"
  let ?t = "rev (takeWhile is_white_space (rev ?b))"
  have b: "?b = trim s @ ?t"
    unfolding trim_def by (rule rev_dropWhile_rev)
  have "s = ?l @ ?b" by simp
  with b have "s = ?l @ trim s @ ?t" by simp
  moreover have "\<forall>c\<in>set ?l. is_white_space c" by (auto dest: set_takeWhileD)
  moreover have "\<forall>c\<in>set ?t. is_white_space c" by (auto dest: set_takeWhileD)
  ultimately show ?thesis by blast
qed

lemma trim_ends:
  assumes "trim s \<noteq> []"
  shows "\<not> is_white_space (hd (trim s))" and "\<not> is_white_space (last (trim s))"
proof -
  let ?b = "dropWhile is_white_space s"
  let ?d = "dropWhile is_white_space (rev ?b)"
  from assms have d: "?d \<noteq> []" by (simp add: trim_def)
  then have "\<not> is_white_space (hd ?d)" by (rule hd_dropWhile)
  moreover have "last (trim s) = hd ?d" using d by (simp add: trim_def last_rev)
  ultimately show "\<not> is_white_space (last (trim s))" by simp
  have b: "?b \<noteq> []"
  proof
    assume "?b = []"
    then have "?d = []" by (simp only: rev.simps dropWhile.simps)
    with d show False by blast
  qed
  then have nb: "\<not> is_white_space (hd ?b)" by (rule hd_dropWhile)
  have "?b = trim s @ rev (takeWhile is_white_space (rev ?b))"
    unfolding trim_def by (rule rev_dropWhile_rev)
  then have "hd ?b = hd (trim s @ rev (takeWhile is_white_space (rev ?b)))" by simp
  also have "\<dots> = hd (trim s)" using assms by simp
  finally show "\<not> is_white_space (hd (trim s))" using nb by simp
qed

text \<open>
  C8. When the status is a success and the parsed body is an object whose \<open>response\<close>
  is a non-empty string, the call returns that string trimmed: the string is white
  space, then the result, then white space, and the result neither begins nor ends
  with white space.
\<close>

theorem description_trimmed:
  assumes "fetch (request_of info) = Inr r" and "ok r" and "json r = Inr (JObj ps)"
    and "map_of ps (js ''response'') = Some (JStr s)" and "s \<noteq> []"
  shows "fst (generateDescriptionFromImage fetch info w) = Inr (trim s)
       \<and> (\<exists>l t. s = l @ trim s @ t \<and> (\<forall>c\<in>set l. is_white_space c) \<and> (\<forall>c\<in>set t. is_white_space c))
       \<and> (trim s \<noteq> [] \<longrightarrow> \<not> is_white_space (hd (trim s)) \<and> \<not> is_white_space (last (trim s)))"
proof -
  have "fst (generateDescriptionFromImage fetch info w) = Inr (trim s)"
    using assms by (simp add: generate_defs)
  then show ?thesis using trim_decomposition [of s] trim_ends [of s] by blast
qed

text \<open>The theorem for a 200 whose body is \<open>{"response":"  A cat on a mat.  "}\<close>.\<close>

theorem description_trimmed_witness:
  "fst (generateDescriptionFromImage cat_network png_image quiet_world) = Inr (js ''A cat on a mat.'')"
  using description_trimmed [of cat_network png_image
      "\<lparr>status = 200, json = Inr (JObj [(js ''response'', JStr (js ''  A cat on a mat.  ''))])\<rparr>"
      "[(js ''response'', JStr (js ''  A cat on a mat.  ''))]" "js ''  A cat on a mat.  ''" quiet_world]
  by (simp add: cat_network_def ok_def trim_def js_def is_white_space_def is_line_terminator_def)

subsection \<open>Other failures\<close>

text \<open>
  C9, as stated, fails: a 200 whose body is not JSON makes \<open>response.json()\<close> reject with
  a \<open>SyntaxError\<close>, which is neither a bad status, nor an empty description, nor a
  failure of the transport. The \<open>catch\<close> block logs it and throws an error with the
  parser's own message, not with the generic one.
\<close>

theorem syntax_error_keeps_its_message:
  "generateDescriptionFromImage bad_json_network png_image quiet_world =
     (Inl (ErrorObject Error (js ''Unexpected end of JSON input'')),
      \<lparr>requests = [request_of png_image],
       console = [[LogText (js ''Error calling Ollama API:''),
                   LogThrown (ErrorObject SyntaxError (js ''Unexpected end of JSON input''))]]\<rparr>)
   \<and> js ''Unexpected end of JSON input'' \<noteq> unexpected_message"
  by (simp add: generate_defs bad_json_network_def ok_def quiet_world_def unexpected_message_def js_def)

text \<open>
  C9, amended. When \<open>fetch\<close> rejects, or a response with a success status has a body
  whose \<open>json()\<close> rejects, with anything but a \<open>TypeError\<close>, the call logs what was
  caught with \<open>console.error\<close> and throws a new \<open>Error\<close>: with the caught error's own
  message when it is an \<open>Error\<close>, with the generic message
  \<open>An unexpected error occurred while communicating with the Ollama API.\<close> otherwise.
\<close>

theorem other_failure_rethrown_and_logged:
  assumes "fetch (request_of info) = Inl e
         \<or> (\<exists>r. fetch (request_of info) = Inr r \<and> ok r \<and> json r = Inl e)"
    and "\<not> instanceof_TypeError e"
  shows "generateDescriptionFromImage fetch info w =
           (Inl (ErrorObject Error
                  (case e of ErrorObject c m \<Rightarrow> m
                   | _ \<Rightarrow> js ''An unexpected error occurred while communicating with the Ollama API.'')),
            w\<lparr>requests := requests w @ [request_of info],
              console := console w @ [[LogText (js ''Error calling Ollama API:''), LogThrown e]]\<rparr>)"
  using assms by (cases e) (auto simp add: generate_defs unexpected_message_def)

text \<open>The theorem for a \<open>fetch\<close> that rejects with the string \<open>boom\<close>.\<close>

theorem other_failure_rethrown_and_logged_witness:
  "generateDescriptionFromImage string_throwing_network png_image quiet_world =
     (Inl (ErrorObject Error (js ''An unexpected error occurred while communicating with the Ollama API.'')),
      \<lparr>requests = [request_of png_image],
       console = [[LogText (js ''Error calling Ollama API:''),
                   LogThrown (OtherValue (JStr (js ''boom'')))]]\<rparr>)"
  using other_failure_rethrown_and_logged [of string_throwing_network png_image
      "OtherValue (JStr (js ''boom''))" quiet_world]
  by (simp add: string_throwing_network_def quiet_world_def)

section \<open>Properties of the application\<close>

text \<open>
  Whatever \<open>generateDescriptionFromImage\<close> throws is caught by the handler, shown after
  \<open>Failed to generate description. \<close> and logged; the loading flag is cleared.
\<close>

lemma handler_reports_failure:
  assumes "imageInfo app = Some info"
    and "generateDescriptionFromImage fetch info w = (Inl (ErrorObject c m), w')"
  shows "handleGenerateDescription fetch app w =
           (app\<lparr>isLoading := False, description := [],
                error := Some (js ''Failed to generate description. '' @ m)\<rparr>,
            w'\<lparr>console := console w' @ [[LogThrown (ErrorObject c m)]]\<rparr>)"
  using assms by (simp add: handleGenerateDescription_def console_error_def)

text \<open>
  C5. With no image record in the state, the handler only sets the error shown to
  \<open>Please upload an image first.\<close>: nothing is sent and nothing is logged, whatever the
  network would have answered.
\<close>

theorem no_image_no_request:
  assumes "imageInfo app = None"
  shows "handleGenerateDescription fetch app w =
           (app\<lparr>error := Some (js ''Please upload an image first.'')\<rparr>, w)"
  using assms by (simp add: handleGenerateDescription_def)

text \<open>The theorem for the state before any upload.\<close>

theorem no_image_no_request_witness:
  "handleGenerateDescription cat_network idle_app quiet_world =
     (idle_app\<lparr>error := Some (js ''Please upload an image first.'')\<rparr>, quiet_world)
   \<and> requests (snd (handleGenerateDescription cat_network idle_app quiet_world)) = []"
  using no_image_no_request [of idle_app cat_network quiet_world]
  by (simp add: idle_app_def quiet_world_def)

end
